theory Spec2Isabelle
  imports Main
begin

section \<open>The tabs-motion component (src/tabs-motion/index.js)\<close>

text \<open>
  A shallow embedding of the \<^verbatim>\<open>Tabs\<close> function component: its constants, the
  orientation helper, the accent layout effect, the two render passes and the
  key-down handler of a tab. JavaScript strings are \<open>string\<close>, a value that may be
  \<^verbatim>\<open>undefined\<close> or \<^verbatim>\<open>null\<close> is an \<open>option\<close>, DOM lengths are \<open>int\<close>
  (the DOM reports them as integers), a thrown \<^verbatim>\<open>TypeError\<close> is the left
  summand of a sum, and the \<^verbatim>\<open>onSelect\<close> callback is a log of the calls made.
\<close>

subsection \<open>Constants\<close>

datatype ORIENTATION = vertical | horizontal

datatype FILL = fixed | intrinsic

datatype KEYBOARD_ACTIVATION = automatic | manual

subsection \<open>Utilities\<close>

text \<open>
  A template literal \<^verbatim>\<open>`tab_${key}`\<close> prints an undefined key as the text
  \<^verbatim>\<open>undefined\<close>.
\<close>

definition template :: "string option \<Rightarrow> string" where
  "template key = (case key of None \<Rightarrow> ''undefined'' | Some k \<Rightarrow> k)"

definition getTabId :: "string option \<Rightarrow> string" where
  "getTabId key = ''tab_'' @ template key"

definition getTabPanelId :: "string option \<Rightarrow> string" where
  "getTabPanelId key = ''tabpanel_'' @ template key"

text \<open>\<^verbatim>\<open>String(index)\<close> for an array index: its decimal digits.\<close>

definition digit_char :: "nat \<Rightarrow> char" where
  "digit_char d = ''0123456789'' ! d"

function js_String :: "nat \<Rightarrow> string" where
  "js_String n =
     (if n < 10 then [digit_char n] else js_String (n div 10) @ [digit_char (n mod 10)])"
  by pat_completeness auto
termination
  by (relation "measure id") auto

declare js_String.simps [simp del]

text \<open>
  Indexing a JavaScript array: the index is a number, here \<open>None\<close> when it is
  \<^verbatim>\<open>NaN\<close> or \<^verbatim>\<open>undefined\<close>; a read outside the array gives \<^verbatim>\<open>undefined\<close>.
\<close>

definition js_nth :: "'a list \<Rightarrow> int option \<Rightarrow> 'a option" where
  "js_nth xs i =
     (case i of
        None \<Rightarrow> None
      | Some k \<Rightarrow> if 0 \<le> k \<and> nat k < length xs then Some (xs ! nat k) else None)"

subsection \<open>The orientation helper\<close>

text \<open>
  The values of a variant mapping are style values, strings or numbers. The
  operator \<^verbatim>\<open>||\<close> returns its left operand when that is truthy and its right
  operand otherwise; the empty string, the number zero and a missing property are
  falsy.
\<close>

datatype style_value = Str string | Num int

fun truthy :: "style_value option \<Rightarrow> bool" where
  "truthy None = False"
| "truthy (Some (Str s)) = (s \<noteq> [])"
| "truthy (Some (Num n)) = (n \<noteq> 0)"

definition js_or :: "style_value option \<Rightarrow> style_value option \<Rightarrow> style_value option" where
  "js_or a b = (if truthy a then a else b)"

text \<open>
  \<open>direction\<close> is \<^verbatim>\<open>theme.direction\<close>, a string supplied by the styling
  primitive. The result \<open>None\<close> is \<^verbatim>\<open>null\<close>.
\<close>

definition helper ::
  "ORIENTATION \<Rightarrow> string \<Rightarrow> (string \<rightharpoonup> style_value) \<Rightarrow> style_value option" where
  "helper orientation direction results =
     (if orientation = horizontal \<and> direction \<noteq> ''rtl'' then
        js_or (results ''hltr'') (js_or (results ''h'') (js_or (results ''ltr'') None))
      else if orientation = vertical \<and> direction \<noteq> ''rtl'' then
        js_or (results ''vltr'') (js_or (results ''v'') (js_or (results ''ltr'') None))
      else if orientation = horizontal \<and> direction = ''rtl'' then
        js_or (results ''hrtl'') (js_or (results ''h'') (js_or (results ''rtl'') None))
      else if orientation = vertical \<and> direction = ''rtl'' then
        js_or (results ''vrtl'') (js_or (results ''v'') (js_or (results ''rtl'') None))
      else None)"

text \<open>
  The precedence order in the words of the specification: the entry for the
  orientation and the direction together, then the entry for the orientation, then
  the entry for the direction.
\<close>

definition orientation_name :: "ORIENTATION \<Rightarrow> string" where
  "orientation_name orientation = (case orientation of horizontal \<Rightarrow> ''h'' | vertical \<Rightarrow> ''v'')"

definition direction_name :: "string \<Rightarrow> string" where
  "direction_name direction = (if direction = ''rtl'' then ''rtl'' else ''ltr'')"

definition precedence :: "ORIENTATION \<Rightarrow> string \<Rightarrow> string list" where
  "precedence orientation direction =
     [orientation_name orientation @ direction_name direction,
      orientation_name orientation,
      direction_name direction]"

text \<open>The first entry of the precedence order that the mapping defines, as the
  specification words it.\<close>

fun first_defined :: "(string \<rightharpoonup> style_value) \<Rightarrow> string list \<Rightarrow> style_value option" where
  "first_defined results [] = None"
| "first_defined results (k # ks) =
     (case results k of None \<Rightarrow> first_defined results ks | Some v \<Rightarrow> Some v)"

text \<open>The first entry of the precedence order whose value is truthy.\<close>

fun first_truthy :: "(string \<rightharpoonup> style_value) \<Rightarrow> string list \<Rightarrow> style_value option" where
  "first_truthy results [] = None"
| "first_truthy results (k # ks) =
     (if truthy (results k) then results k else first_truthy results ks)"

subsection \<open>The accent layout effect\<close>

text \<open>
  The measurements the effect reads from \<^verbatim>\<open>activeTabRef.current\<close>. The element is
  a child of the tab list, whose \<^verbatim>\<open>scrollWidth\<close> is read through
  \<^verbatim>\<open>parentElement\<close>.
\<close>

record element =
  clientWidth :: int
  clientHeight :: int
  offsetLeft :: int
  offsetTop :: int
  parentElement_scrollWidth :: int

record accentLayout =
  accent_length :: int
  accent_distance :: int

text \<open>The initial state of \<^verbatim>\<open>React.useState({length: 0, distance: 0})\<close>.\<close>

definition accentLayout_initial :: accentLayout where
  "accentLayout_initial = \<lparr>accent_length = 0, accent_distance = 0\<rparr>"

text \<open>
  One run of the effect: \<open>current\<close> is \<^verbatim>\<open>activeTabRef.current\<close>, \<open>None\<close> when no
  element is attached to the ref. The state is returned as \<^verbatim>\<open>setAccentLayout\<close>
  leaves it.
\<close>

definition useEffect_accentLayout ::
  "ORIENTATION \<Rightarrow> string \<Rightarrow> element option \<Rightarrow> accentLayout \<Rightarrow> accentLayout" where
  "useEffect_accentLayout orientation direction current layout =
     (case current of
        None \<Rightarrow> layout
      | Some el \<Rightarrow>
          \<lparr>accent_length =
             (if orientation = horizontal then clientWidth el else clientHeight el),
           accent_distance =
             (if orientation = horizontal then
                (if direction \<noteq> ''rtl'' then offsetLeft el
                 else - 1 * (parentElement_scrollWidth el - offsetLeft el - clientWidth el))
              else offsetTop el)\<rparr>)"

text \<open>
  A sequence of runs of the effect. The effect depends on \<^verbatim>\<open>activeTabKey\<close> only:
  it runs after the first render and after each render in which \<^verbatim>\<open>activeTabKey\<close>
  has changed, and not after a render that changes the orientation or the direction
  alone. Each entry of the list is one such run, with the orientation, the
  direction and the ref as they are when it runs.
\<close>

fun run_effects ::
  "(ORIENTATION \<times> string \<times> element option) list \<Rightarrow> accentLayout \<Rightarrow> accentLayout" where
  "run_effects [] layout = layout"
| "run_effects ((orientation, direction, current) # rs) layout =
     run_effects rs (useEffect_accentLayout orientation direction current layout)"

subsection \<open>Children and the two render passes\<close>

text \<open>
  A child of \<^verbatim>\<open>Tabs\<close> is a \<^verbatim>\<open>Tab\<close> element: its \<^verbatim>\<open>key\<close> (\<^verbatim>\<open>null\<close>, here
  \<open>None\<close>, when the caller gave none), and its props \<^verbatim>\<open>title\<close> and
  \<^verbatim>\<open>children\<close>. The \<^verbatim>\<open>children\<close> prop of \<^verbatim>\<open>Tabs\<close> is an array whose entries
  are elements or falsy values (\<open>None\<close>), or, when the caller wrote a single child,
  that element itself and no array.
\<close>

record tab_element =
  el_key :: "string option"
  el_title :: string
  el_children :: string

datatype children_prop =
  Children_array "tab_element option list"
| Children_single tab_element

text \<open>\<^verbatim>\<open>children.length\<close>: an element has no such property, the read gives
  \<^verbatim>\<open>undefined\<close>.\<close>

definition children_length :: "children_prop \<Rightarrow> nat option" where
  "children_length cs =
     (case cs of Children_array xs \<Rightarrow> Some (length xs) | Children_single c \<Rightarrow> None)"

text \<open>The children in the order in which they are visited: the entries of the
  array, or the single child.\<close>

definition child_nodes :: "children_prop \<Rightarrow> tab_element option list" where
  "child_nodes cs = (case cs of Children_array xs \<Rightarrow> xs | Children_single c \<Rightarrow> [Some c])"

text \<open>
  \<^verbatim>\<open>React.Children.map(children, fn)\<close>, as React documents it: \<open>fn\<close> is called
  with every child and a running index that starts at 0 and counts every call, an
  empty node (\<^verbatim>\<open>null\<close>, \<^verbatim>\<open>undefined\<close>, a boolean) is passed as \<^verbatim>\<open>null\<close>, and
  the returned array holds the results of \<open>fn\<close> except \<^verbatim>\<open>null\<close> and
  \<^verbatim>\<open>undefined\<close>. A result \<open>None\<close> of \<open>fn\<close> is such a \<^verbatim>\<open>null\<close> or
  \<^verbatim>\<open>undefined\<close>.
\<close>

fun mapIntoArray ::
  "(tab_element option \<Rightarrow> nat \<Rightarrow> 'b option) \<Rightarrow> nat \<Rightarrow> tab_element option list \<Rightarrow> 'b list" where
  "mapIntoArray fn count [] = []"
| "mapIntoArray fn count (child # rest) =
     (case fn child count of
        None \<Rightarrow> mapIntoArray fn (Suc count) rest
      | Some mappedChild \<Rightarrow> mappedChild # mapIntoArray fn (Suc count) rest)"

definition React_Children_map ::
  "children_prop \<Rightarrow> (tab_element option \<Rightarrow> nat \<Rightarrow> 'b option) \<Rightarrow> 'b list" where
  "React_Children_map cs fn = mapIntoArray fn 0 (child_nodes cs)"

text \<open>The props of \<^verbatim>\<open>Tabs\<close>, but \<^verbatim>\<open>onSelect\<close>, whose calls are logged in the
  state below.\<close>

record props =
  activeTabKey :: string
  disabled :: bool
  keyboardActivation :: KEYBOARD_ACTIVATION
  orientation :: ORIENTATION
  fill :: FILL
  children :: children_prop

definition default_props :: "children_prop \<Rightarrow> props" where
  "default_props cs =
     \<lparr>activeTabKey = ''0'', disabled = False, keyboardActivation = automatic,
      orientation = horizontal, fill = intrinsic, children = cs\<rparr>"

text \<open>\<^verbatim>\<open>child.key || String(index)\<close>: a \<^verbatim>\<open>null\<close> key and the empty key are
  falsy.\<close>

definition child_key :: "tab_element \<Rightarrow> nat \<Rightarrow> string" where
  "child_key child index =
     (case el_key child of
        None \<Rightarrow> js_String index
      | Some k \<Rightarrow> if k = [] then js_String index else k)"

text \<open>The first pass, which collects the keys.\<close>

definition tabKeys :: "props \<Rightarrow> string list" where
  "tabKeys p =
     React_Children_map (children p)
       (\<lambda>child index.
          case child of None \<Rightarrow> None | Some c \<Rightarrow> Some (child_key c index))"

text \<open>
  A rendered tab: the \<^verbatim>\<open>Button\<close> with the attributes the component gives it.
  \<open>button_key\<close> is the variable \<^verbatim>\<open>key\<close> of the pass, \<^verbatim>\<open>tabKeys[index]\<close>, which
  is also the value a click passes to \<^verbatim>\<open>onSelect\<close>; \<open>ref_attached\<close> says that
  \<^verbatim>\<open>activeTabRef\<close> is its \<^verbatim>\<open>ref\<close>.
\<close>

record tab_button =
  button_key :: "string option"
  button_id :: string
  aria_selected :: bool
  aria_controls :: string
  tabIndex :: string
  ref_attached :: bool
  button_title :: string

definition Tabs_buttons :: "props \<Rightarrow> tab_button list" where
  "Tabs_buttons p =
     React_Children_map (children p)
       (\<lambda>child index.
          case child of
            None \<Rightarrow> None
          | Some c \<Rightarrow>
              (let key = js_nth (tabKeys p) (Some (int index));
                   isActive = (key = Some (activeTabKey p))
               in Some \<lparr>button_key = key,
                        button_id = getTabId key,
                        aria_selected = isActive,
                        aria_controls = getTabPanelId key,
                        tabIndex = (if isActive then ''0'' else ''-1''),
                        ref_attached = isActive,
                        button_title = el_title c\<rparr>))"

text \<open>A rendered panel.\<close>

record tab_panel =
  panel_key :: string
  panel_id :: string
  aria_expanded :: bool
  hidden :: bool
  panel_children :: string

definition Tabs_panels :: "props \<Rightarrow> tab_panel list" where
  "Tabs_panels p =
     React_Children_map (children p)
       (\<lambda>child index.
          case child of
            None \<Rightarrow> None
          | Some c \<Rightarrow>
              (let key = child_key c index;
                   isActive = (key = activeTabKey p)
               in Some \<lparr>panel_key = key,
                        panel_id = getTabPanelId (Some key),
                        aria_expanded = isActive,
                        hidden = (\<not> isActive),
                        panel_children = el_children c\<rparr>))"

subsection \<open>The key-down handler of a tab\<close>

text \<open>
  The child nodes of the tab list: the buttons of the rendered tabs, in order, and
  after them the accent. \<^verbatim>\<open>Button\<close> is taken to render one element, which
  carries the attributes and the handlers it is given and is the target of a key
  pressed on the tab. All child nodes are elements. A node is named by its position
  in this list.
\<close>

datatype dom_node = Button tab_button | StyledTabAccent

definition childNodes :: "props \<Rightarrow> dom_node list" where
  "childNodes p = map Button (Tabs_buttons p) @ [StyledTabAccent]"

definition previousSibling :: "dom_node list \<Rightarrow> nat \<Rightarrow> nat option" where
  "previousSibling nodes t = (if 0 < t \<and> t < length nodes then Some (t - 1) else None)"

definition nextSibling :: "dom_node list \<Rightarrow> nat \<Rightarrow> nat option" where
  "nextSibling nodes t = (if t + 1 < length nodes then Some (t + 1) else None)"

definition lastElementChild :: "dom_node list \<Rightarrow> nat option" where
  "lastElementChild nodes = (if nodes = [] then None else Some (length nodes - 1))"

text \<open>
  What the handler changes: the element that has focus (a position among the child
  nodes of the tab list) and the calls of \<^verbatim>\<open>onSelect\<close> made so far, each with the
  \<^verbatim>\<open>selectedTabKey\<close> it was given (\<open>None\<close> for \<^verbatim>\<open>undefined\<close>).
\<close>

record ui_state =
  activeElement :: "nat option"
  onSelect_calls :: "string option list"

datatype js_error = TypeError

record keyboard_event =
  keyCode :: nat
  target :: nat

text \<open>\<^verbatim>\<open>node.focus()\<close>: a button takes the focus; the accent, a \<^verbatim>\<open>div\<close> with no
  \<^verbatim>\<open>tabindex\<close>, is not focusable and the call changes nothing.\<close>

definition focus :: "dom_node \<Rightarrow> nat \<Rightarrow> ui_state \<Rightarrow> ui_state" where
  "focus node position s =
     (case node of
        Button b \<Rightarrow> s\<lparr>activeElement := Some position\<rparr>
      | StyledTabAccent \<Rightarrow> s)"

definition onSelect :: "string option \<Rightarrow> ui_state \<Rightarrow> ui_state" where
  "onSelect selectedTabKey s = s\<lparr>onSelect_calls := onSelect_calls s @ [selectedTabKey]\<rparr>"

text \<open>The click handler of the tab rendered as \<open>b\<close>.\<close>

definition onClick :: "tab_button \<Rightarrow> ui_state \<Rightarrow> ui_state" where
  "onClick b s = onSelect (button_key b) s"

text \<open>
  \<open>nextActiveIndex\<close> is a JavaScript number: \<open>None\<close> when it is \<^verbatim>\<open>undefined\<close> or
  \<^verbatim>\<open>NaN\<close> (\<^verbatim>\<open>children.length - 1\<close> when \<^verbatim>\<open>children\<close> is no array).
\<close>

definition nextActiveIndex :: "props \<Rightarrow> nat \<Rightarrow> keyboard_event \<Rightarrow> int option" where
  "nextActiveIndex p index event =
     (let nodes = childNodes p in
      if keyCode event = 37 then
        (if previousSibling nodes (target event) \<noteq> None then Some (int index - 1)
         else map_option (\<lambda>n. int n - 1) (children_length (children p)))
      else if keyCode event = 39 then
        (if nextSibling nodes (target event) \<noteq> None \<and>
            nextSibling nodes (target event) \<noteq> lastElementChild nodes
         then Some (int index + 1)
         else Some 0)
      else None)"

text \<open>
  The handler of the tab rendered for the child at \<open>index\<close>. Calling \<^verbatim>\<open>focus\<close> on
  \<^verbatim>\<open>undefined\<close> throws, before anything has changed.
\<close>

definition onKeyDown :: "props \<Rightarrow> nat \<Rightarrow> keyboard_event \<Rightarrow> ui_state \<Rightarrow> js_error + ui_state" where
  "onKeyDown p index event s =
     (if keyCode event = 37 \<or> keyCode event = 39 then
        (let i = nextActiveIndex p index event in
         case js_nth (childNodes p) i of
           None \<Rightarrow> Inl TypeError
         | Some node \<Rightarrow>
             (let s1 = focus node (case i of None \<Rightarrow> 0 | Some k \<Rightarrow> nat k) s in
              if keyboardActivation p = automatic
              then Inr (onSelect (js_nth (tabKeys p) i) s1)
              else Inr s1))
      else Inr s)"

text \<open>
  The position, among the child nodes of the tab list, of the button rendered for
  the child at \<open>index\<close>: the number of rendered children before it.
\<close>

definition button_position :: "props \<Rightarrow> nat \<Rightarrow> nat" where
  "button_position p index =
     length (filter (\<lambda>child. child \<noteq> None) (take index (child_nodes (children p))))"

text \<open>A key pressed on the tab of the child at \<open>index\<close>: the event's target is that
  tab's button.\<close>

definition keyDown_on_tab :: "props \<Rightarrow> nat \<Rightarrow> nat \<Rightarrow> ui_state \<Rightarrow> js_error + ui_state" where
  "keyDown_on_tab p index code s =
     onKeyDown p index \<lparr>keyCode = code, target = button_position p index\<rparr> s"

subsection \<open>The tabs as the caller gives them\<close>

text \<open>
  The notions of this subsection are those of the statements below, not of the
  source. The tabs among the children, in order, each with its position among all
  children, falsy entries counted.
\<close>

fun tabs_from :: "nat \<Rightarrow> tab_element option list \<Rightarrow> (nat \<times> tab_element) list" where
  "tabs_from k [] = []"
| "tabs_from k (None # cs) = tabs_from (Suc k) cs"
| "tabs_from k (Some c # cs) = (k, c) # tabs_from (Suc k) cs"

definition tab_definitions :: "props \<Rightarrow> (nat \<times> tab_element) list" where
  "tab_definitions p = tabs_from 0 (child_nodes (children p))"

text \<open>
  The key of a tab: the key the caller gave the element, and for an element given
  no key, or the empty one, the decimal string of its position among all children.
\<close>

definition definition_key :: "nat \<times> tab_element \<Rightarrow> string" where
  "definition_key t =
     (case el_key (snd t) of
        Some k \<Rightarrow> if k \<noteq> [] then k else js_String (fst t)
      | None \<Rightarrow> js_String (fst t))"


subsection \<open>Example inputs\<close>

text \<open>A \<^verbatim>\<open>Tab\<close> element with no key.\<close>

definition keyless_tab :: "string \<Rightarrow> string \<Rightarrow> tab_element" where
  "keyless_tab t c = \<lparr>el_key = None, el_title = t, el_children = c\<rparr>"

text \<open>A \<^verbatim>\<open>Tab\<close> element with a key.\<close>

definition keyed_tab :: "string \<Rightarrow> string \<Rightarrow> string \<Rightarrow> tab_element" where
  "keyed_tab k t c = \<lparr>el_key = Some k, el_title = t, el_children = c\<rparr>"

text \<open>Three tabs, which get the keys 0, 1 and 2, with the active key 1.\<close>

definition three_tabs :: props where
  "three_tabs =
     (default_props
        (Children_array
           [Some (keyless_tab ''A'' ''a''), Some (keyless_tab ''B'' ''b''),
            Some (keyless_tab ''C'' ''c'')]))
     \<lparr>activeTabKey := ''1''\<rparr>"

text \<open>A falsy child, as \<^verbatim>\<open>{cond && <Tab/>}\<close> leaves it, before one tab; the
  active key is 1, the position of the tab.\<close>

definition falsy_then_tab :: props where
  "falsy_then_tab =
     (default_props (Children_array [None, Some (keyless_tab ''A'' ''a'')]))
     \<lparr>activeTabKey := ''1''\<rparr>"

text \<open>Two tabs and a falsy child after them.\<close>

definition two_tabs_then_falsy :: props where
  "two_tabs_then_falsy =
     default_props
       (Children_array [Some (keyless_tab ''A'' ''a''), Some (keyless_tab ''B'' ''b''), None])"



section \<open>Properties\<close>

subsection \<open>The orientation helper\<close>

lemma helper_first_truthy:
  "helper ori dir results = first_truthy results (precedence ori dir)"
  by (cases ori)
     (simp_all add: helper_def precedence_def orientation_name_def direction_name_def js_or_def)

lemma first_truthy_first_defined:
  "\<forall>k\<in>set ks. results k \<noteq> None \<longrightarrow> truthy (results k) \<Longrightarrow>
   first_truthy results ks = first_defined results ks"
  by (induction ks) (auto split: option.splits)

text \<open>
  Claim C5, as amended. For every orientation, every direction and every variant
  mapping, the helper returns the first truthy value in the precedence order: the
  entry for the orientation and the direction (hltr, hrtl, vltr, vrtl), then the
  entry for the orientation (h, v), then the entry for the direction (ltr, rtl; every
  direction but rtl counts as ltr), and null when none of the three is truthy. An
  entry that is defined but falsy, the number 0 or the empty string, is passed
  over. When every defined entry of the order is truthy, the result is the first
  defined entry.
\<close>

theorem helper_returns_first_truthy:
  "helper ori dir results = first_truthy results (precedence ori dir) \<and>
   ((\<forall>k\<in>set (precedence ori dir). results k \<noteq> None \<longrightarrow> truthy (results k)) \<longrightarrow>
    helper ori dir results = first_defined results (precedence ori dir))"
  using first_truthy_first_defined [of "precedence ori dir" results]
  by (simp add: helper_first_truthy)

text \<open>The witness: the box shadow of the tab list, a vertical list in a
  right-to-left theme.\<close>

theorem helper_returns_first_truthy_witness:
  "helper vertical ''rtl''
     [''h'' \<mapsto> Str ''inset 0 -5px'', ''vltr'' \<mapsto> Str ''inset -5px 0'',
      ''vrtl'' \<mapsto> Str ''inset 5px 0'']
   = Some (Str ''inset 5px 0'')"
  using helper_returns_first_truthy [of vertical "''rtl''"
      "[''h'' \<mapsto> Str ''inset 0 -5px'', ''vltr'' \<mapsto> Str ''inset -5px 0'',
        ''vrtl'' \<mapsto> Str ''inset 5px 0'']"]
  by (simp add: precedence_def orientation_name_def direction_name_def)

text \<open>
  The claim as stated, with the first defined value, fails: for a horizontal list in
  a left-to-right theme and the mapping \<^verbatim>\<open>{hltr: 0, h: '5px'}\<close> the first defined
  entry is the number 0 of hltr, and the helper returns the entry of h.
\<close>

theorem helper_first_defined_counterexample:
  "helper horizontal ''ltr'' [''hltr'' \<mapsto> Num 0, ''h'' \<mapsto> Str ''5px'']
   \<noteq> first_defined [''hltr'' \<mapsto> Num 0, ''h'' \<mapsto> Str ''5px''] (precedence horizontal ''ltr'')"
  by (simp add: helper_def js_or_def precedence_def orientation_name_def direction_name_def)

subsection \<open>The accent layout effect\<close>

text \<open>
  Claim C6. With an element attached to the ref, the distance the effect stores
  is, for a horizontal list in a right-to-left theme, the negative of the parent's
  scrollWidth less the tab's offsetLeft less the tab's clientWidth; for a
  horizontal list in a left-to-right theme the tab's offsetLeft; and for a vertical
  list, in any theme, the tab's offsetTop.
\<close>

theorem accent_distance_formula:
  "accent_distance (useEffect_accentLayout horizontal ''rtl'' (Some el) layout)
     = - (parentElement_scrollWidth el - offsetLeft el - clientWidth el) \<and>
   accent_distance (useEffect_accentLayout horizontal ''ltr'' (Some el) layout)
     = offsetLeft el \<and>
   accent_distance (useEffect_accentLayout vertical dir (Some el) layout)
     = offsetTop el"
  by (simp add: useEffect_accentLayout_def)

lemma run_effects_unresolved:
  "\<forall>r\<in>set runs. snd (snd r) = None \<Longrightarrow> run_effects runs layout = layout"
  by (induction runs arbitrary: layout) (auto simp: useEffect_accentLayout_def)

text \<open>
  Claim C8. A run of the effect that finds no element attached to the ref leaves
  the accent layout as it was (the model has no failing branch there: the
  measurements are only read from an attached element). The state starts as length
  0 and distance 0, and it is still that after any number of runs none of which
  found an element.
\<close>

theorem unresolved_ref_keeps_layout:
  "useEffect_accentLayout ori dir None layout = layout \<and>
   accentLayout_initial = \<lparr>accent_length = 0, accent_distance = 0\<rparr> \<and>
   ((\<forall>r\<in>set runs. snd (snd r) = None) \<longrightarrow>
    run_effects runs accentLayout_initial = \<lparr>accent_length = 0, accent_distance = 0\<rparr>)"
  using run_effects_unresolved [of runs accentLayout_initial]
  by (simp add: useEffect_accentLayout_def accentLayout_initial_def)

text \<open>The witness: a first render and a change of the active key, both with
  nothing attached to the ref.\<close>

theorem unresolved_ref_keeps_layout_witness:
  "run_effects [(horizontal, ''ltr'', None), (vertical, ''rtl'', None)] accentLayout_initial
   = \<lparr>accent_length = 0, accent_distance = 0\<rparr>"
  using unresolved_ref_keeps_layout
    [of horizontal "''ltr''" accentLayout_initial
        "[(horizontal, ''ltr'', None), (vertical, ''rtl'', None)]"]
  by (simp add: useEffect_accentLayout_def)


subsection \<open>The render passes\<close>

text \<open>The definitions that a render of a concrete input unfolds.\<close>

lemmas render_defs =
  Tabs_buttons_def Tabs_panels_def tabKeys_def React_Children_map_def child_nodes_def
  child_key_def default_props_def getTabId_def getTabPanelId_def template_def js_nth_def
  digit_char_def keyless_tab_def keyed_tab_def Let_def

text \<open>Each pass renders the tabs among the children, in their order.\<close>

lemma mapIntoArray_tabs_from:
  assumes none: "\<And>i. fn None i = None"
    and some: "\<And>c i. fn (Some c) i = Some (g (i, c))"
  shows "mapIntoArray fn k cs = map g (tabs_from k cs)"
proof (induction cs arbitrary: k)
  case Nil
  show ?case by simp
next
  case (Cons x cs)
  show ?case
  proof (cases x)
    case None
    with Cons.IH [of "Suc k"] show ?thesis by (simp add: none)
  next
    case (Some c)
    with Cons.IH [of "Suc k"] show ?thesis by (simp add: some)
  qed
qed

lemma tabKeys_definition_keys: "tabKeys p = map definition_key (tab_definitions p)"
  unfolding tabKeys_def React_Children_map_def tab_definitions_def
  by (rule mapIntoArray_tabs_from) (simp_all add: child_key_def definition_key_def split: option.splits)


lemma Tabs_buttons_tab_definitions:
  "Tabs_buttons p =
     map (\<lambda>t. \<lparr>button_key = js_nth (tabKeys p) (Some (int (fst t))),
                button_id = getTabId (js_nth (tabKeys p) (Some (int (fst t)))),
                aria_selected = (js_nth (tabKeys p) (Some (int (fst t))) = Some (activeTabKey p)),
                aria_controls = getTabPanelId (js_nth (tabKeys p) (Some (int (fst t)))),
                tabIndex = (if js_nth (tabKeys p) (Some (int (fst t))) = Some (activeTabKey p)
                            then ''0'' else ''-1''),
                ref_attached = (js_nth (tabKeys p) (Some (int (fst t))) = Some (activeTabKey p)),
                button_title = el_title (snd t)\<rparr>)
       (tab_definitions p)"
  unfolding Tabs_buttons_def React_Children_map_def tab_definitions_def
  by (rule mapIntoArray_tabs_from) (simp_all add: Let_def)



lemma length_tabKeys: "length (tabKeys p) = length (tab_definitions p)"
  by (simp add: tabKeys_definition_keys)







text \<open>
  Claim C9, at an input on which the component does not do what the claim says:
  a falsy child before a keyless tab, with the active key 1. The one tab has the
  key 1, the keys are pairwise distinct and one of them is activeTabKey, and the
  panel of the tab is expanded; but the tab is rendered with tabindex -1 and
  aria-selected false, so that no tab is sequentially focusable. The tab pass
  compares activeTabKey with the entry of the collected keys at the position of
  the child among all children, and the collected keys have no entry for a falsy
  child.
\<close>

theorem falsy_child_no_focusable_tab:
  "map definition_key (tab_definitions falsy_then_tab) = [''1''] \<and>
   activeTabKey falsy_then_tab = ''1'' \<and>
   map tabIndex (Tabs_buttons falsy_then_tab) = [''-1''] \<and>
   map aria_selected (Tabs_buttons falsy_then_tab) = [False]"
  by (simp add: falsy_then_tab_def render_defs tab_definitions_def definition_key_def js_String.simps)

text \<open>
  Claim C10, at an input on which the component does not do what the claim says:
  a falsy child before a keyless tab. The tab's position among all children is 1,
  and 1 is the key of its panel and the key the first pass collects; but the first
  pass returns its keys without the entry of the falsy child, the tab pass reads
  that array at the position 1, past its end, and the tab is rendered with the key
  \<^verbatim>\<open>undefined\<close>, the id tab_undefined and aria-controls tabpanel_undefined, and is
  not selected although the active key is 1.
\<close>

theorem falsy_child_shifts_tab_key:
  "tabKeys falsy_then_tab = [''1''] \<and>
   Tabs_buttons falsy_then_tab =
     [\<lparr>button_key = None, button_id = ''tab_undefined'', aria_selected = False,
       aria_controls = ''tabpanel_undefined'', tabIndex = ''-1'', ref_attached = False,
       button_title = ''A''\<rparr>] \<and>
   Tabs_panels falsy_then_tab =
     [\<lparr>panel_key = ''1'', panel_id = ''tabpanel_1'', aria_expanded = True, hidden = False,
       panel_children = ''a''\<rparr>]"
  by (simp add: falsy_then_tab_def render_defs js_String.simps)

subsection \<open>The key-down handler\<close>

text \<open>The definitions that a key press on a concrete input unfolds.\<close>

lemmas handler_defs =
  keyDown_on_tab_def onKeyDown_def nextActiveIndex_def childNodes_def previousSibling_def
  nextSibling_def lastElementChild_def children_length_def button_position_def focus_def
  onSelect_def





lemma onSelect_activeElement [simp]: "activeElement (onSelect k s) = activeElement s"
  by (simp add: onSelect_def)

lemma onSelect_calls_onSelect [simp]:
  "onSelect_calls (onSelect k s) = onSelect_calls s @ [k]"
  by (simp add: onSelect_def)



lemma keyboardActivation_tabKeys [simp]:
  "tabKeys (p\<lparr>keyboardActivation := m\<rparr>) = tabKeys p"
  by (simp add: tabKeys_def)

lemma keyboardActivation_tab_definitions [simp]:
  "tab_definitions (p\<lparr>keyboardActivation := m\<rparr>) = tab_definitions p"
  by (simp add: tab_definitions_def)

lemma keyboardActivation_Tabs_buttons [simp]:
  "Tabs_buttons (p\<lparr>keyboardActivation := m\<rparr>) = Tabs_buttons p"
  by (simp add: Tabs_buttons_tab_definitions)

lemma keyboardActivation_button_position [simp]:
  "button_position (p\<lparr>keyboardActivation := m\<rparr>) i = button_position p i"
  by (simp add: button_position_def)

lemma keyboardActivation_nextActiveIndex [simp]:
  "nextActiveIndex (p\<lparr>keyboardActivation := m\<rparr>) i e = nextActiveIndex p i e"
  by (simp add: nextActiveIndex_def childNodes_def Let_def)
















text \<open>
  Claim C2, at an input on which the component does not do what the claim says: a
  vertical list of three tabs. The handler compares the key code with 37 (left)
  and 39 (right) only, whatever the orientation: the down arrow (40) on the first
  tab and the up arrow (38) on the second change nothing, and the right arrow on
  the first tab moves the focus to the second.
\<close>

theorem vertical_up_down_ignored:
  "keyDown_on_tab (three_tabs\<lparr>orientation := vertical\<rparr>) 0 40
     \<lparr>activeElement = Some 0, onSelect_calls = []\<rparr>
   = Inr \<lparr>activeElement = Some 0, onSelect_calls = []\<rparr> \<and>
   keyDown_on_tab (three_tabs\<lparr>orientation := vertical\<rparr>) 1 38
     \<lparr>activeElement = Some 1, onSelect_calls = []\<rparr>
   = Inr \<lparr>activeElement = Some 1, onSelect_calls = []\<rparr> \<and>
   keyDown_on_tab (three_tabs\<lparr>orientation := vertical\<rparr>) 0 39
     \<lparr>activeElement = Some 0, onSelect_calls = []\<rparr>
   = Inr \<lparr>activeElement = Some 1, onSelect_calls = [Some ''1'']\<rparr>"
  by (simp add: three_tabs_def handler_defs render_defs js_String.simps)

text \<open>
  Claim C3, at an input on which the component does not do what the claim says:
  two tabs, A and B, and a falsy child after them. The previous key (37) on the
  first tab, which has the focus, takes the node at the position
  \<^verbatim>\<open>children.length - 1\<close>, 2, of the child nodes of the tab list; the falsy child
  is counted in \<^verbatim>\<open>children.length\<close> and has no node, so that node is the accent
  and not the last tab: the focus stays on the first tab, and with automatic
  activation onSelect is invoked with an undefined key.
\<close>

theorem falsy_child_breaks_previous_wrap:
  "map button_title (Tabs_buttons two_tabs_then_falsy) = [''A'', ''B''] \<and>
   keyDown_on_tab two_tabs_then_falsy 0 37 \<lparr>activeElement = Some 0, onSelect_calls = []\<rparr>
   = Inr \<lparr>activeElement = Some 0, onSelect_calls = [None]\<rparr> \<and>
   keyDown_on_tab (two_tabs_then_falsy\<lparr>keyboardActivation := manual\<rparr>) 0 37
     \<lparr>activeElement = Some 0, onSelect_calls = []\<rparr>
   = Inr \<lparr>activeElement = Some 0, onSelect_calls = []\<rparr>"
  by (simp add: two_tabs_then_falsy_def handler_defs render_defs js_String.simps)



end
